theory Spec2Isabelle
  imports Main
begin

section \<open>Values exchanged with the libraries\<close>

text \<open>
  The module \<^verbatim>\<open>backend/oauth.py\<close> defines one class, \<^verbatim>\<open>DiscordOAuth\<close>. It talks to
  four libraries that are not part of the repository: \<^verbatim>\<open>reprypt\<close> (the cipher),
  \<^verbatim>\<open>ujson\<close> (\<^verbatim>\<open>dumps\<close>, \<^verbatim>\<open>loads\<close>), \<^verbatim>\<open>aiohttp\<close> (the HTTP session) and
  \<^verbatim>\<open>discord\<close> (the bot and its \<^verbatim>\<open>User\<close> objects). Their operations are fields of the
  record \<open>env\<close> below; the class itself is translated method by method.
\<close>

text \<open>JSON values as \<^verbatim>\<open>loads\<close> returns them (numbers restricted to integers).\<close>

datatype json =
    JNull
  | JBool bool
  | JInt int
  | JStr string
  | JList "json list"
  | JDict "(string \<times> json) list"

text \<open>
  The three fixed message texts of the module are Japanese sentences; each is a
  constructor here. \<open>Userdata_failed d\<close> is the text of lines 186-187, which ends in
  \<^verbatim>\<open>ErrorCode:\<close> followed by \<^verbatim>\<open>str(e)\<close> of the caught provider error, \<open>d\<close>.
\<close>

datatype message =
    Not_ready
  | State_mismatch
  | Userdata_failed string

text \<open>
  Exceptions. \<^verbatim>\<open>ServiceUnavailable\<close> is sanic's \<^verbatim>\<open>SanicException\<close> with status 503.
  \<open>ClientResponseError d\<close> is aiohttp's error for a non-2xx answer (the session is built
  with \<^verbatim>\<open>raise_for_status=True\<close>), \<open>d\<close> its \<^verbatim>\<open>str()\<close>. \<open>LibraryError\<close> stands for
  any other exception of a library (for example \<^verbatim>\<open>discord.NotFound\<close>).
\<close>

datatype exn =
    SanicException message nat
  | ClientResponseError string
  | DecryptError
  | TypeError
  | KeyError string
  | ValueError
  | AttributeError
  | LibraryError string

definition ServiceUnavailable :: "message \<Rightarrow> exn" where
  "ServiceUnavailable m = SanicException m 503"

text \<open>\<^verbatim>\<open>discord.User\<close>: the two attributes the module reads.\<close>

record User =
  user_id :: int
  name :: string

text \<open>
  The bot, once the application has started: \<^verbatim>\<open>bot.fetch_user(id)\<close>, and the
  constructor \<^verbatim>\<open>User(state=bot._connection, data=...)\<close>.
\<close>

record TypedBot =
  fetch_user :: "int \<Rightarrow> exn + User"
  new_User :: "json \<Rightarrow> exn + User"

text \<open>The keyword argument \<^verbatim>\<open>converter=\<close> of reprypt; \<open>None\<close> when it is not passed.\<close>

datatype converter = convert_hex

text \<open>One request sent through the aiohttp session, and what the module reads of the answer.\<close>

record http_request =
  http_method :: string
  url :: string
  params :: "(string \<times> string) list"
  form :: "(string \<times> string option) list"
  headers :: "(string \<times> string) list"

record http_response =
  r_url :: string
  r_json :: "exn + json"

record env =
  reprypt_encrypt :: "string \<Rightarrow> string \<Rightarrow> converter option \<Rightarrow> string"
  reprypt_decrypt :: "string \<Rightarrow> string \<Rightarrow> converter option \<Rightarrow> string option"
    \<comment> \<open>\<open>None\<close>: \<^verbatim>\<open>reprypt.DecryptError\<close> is raised\<close>
  dumps :: "json \<Rightarrow> string"
  loads :: "string \<Rightarrow> json option"
    \<comment> \<open>\<open>None\<close>: \<^verbatim>\<open>ValueError\<close> is raised\<close>
  int_of_str :: "string \<Rightarrow> int option"
    \<comment> \<open>Python's \<^verbatim>\<open>int\<close> on a \<^verbatim>\<open>str\<close>; \<open>None\<close>: \<^verbatim>\<open>ValueError\<close>\<close>
  format_json :: "json \<Rightarrow> string"
    \<comment> \<open>Python's \<^verbatim>\<open>str\<close> on a value that is not a \<^verbatim>\<open>str\<close>\<close>
  http :: "http_request \<Rightarrow> exn + http_response"
    \<comment> \<open>the provider; \<open>Inl\<close>: the request raises\<close>

section \<open>Python's string and mapping operations\<close>

text \<open>\<^verbatim>\<open>s.find(c)\<close> for a one-character \<^verbatim>\<open>c\<close>: the first index, or -1.\<close>

definition find' :: "string \<Rightarrow> char \<Rightarrow> int" where
  "find' s c = (if c \<in> set s then int (length (takeWhile (\<lambda>x. x \<noteq> c) s)) else - 1)"

text \<open>\<^verbatim>\<open>s[:k]\<close> and \<^verbatim>\<open>s[k:]\<close>: a negative index counts from the end, and both clamp.\<close>

definition slice_to :: "'a list \<Rightarrow> int \<Rightarrow> 'a list" where
  "slice_to s k = take (nat (if k < 0 then int (length s) + k else k)) s"

definition slice_from :: "'a list \<Rightarrow> int \<Rightarrow> 'a list" where
  "slice_from s k = drop (nat (if k < 0 then int (length s) + k else k)) s"

text \<open>\<^verbatim>\<open>s.replace("/", "%2F")\<close>.\<close>

definition replace_slash :: "string \<Rightarrow> string" where
  "replace_slash s = concat (map (\<lambda>c. if c = CHR ''/'' then ''%2F'' else [c]) s)"

text \<open>\<^verbatim>\<open>sep.join(xs)\<close>.\<close>

fun join :: "string \<Rightarrow> string list \<Rightarrow> string" where
  "join sep [] = []"
| "join sep [x] = x"
| "join sep (x # y # ys) = x @ sep @ join sep (y # ys)"

text \<open>\<^verbatim>\<open>d[k]\<close> on a JSON value, and \<^verbatim>\<open>int(v)\<close>, \<^verbatim>\<open>f"{v}"\<close>.\<close>

definition getitem :: "json \<Rightarrow> string \<Rightarrow> exn + json" where
  "getitem d k =
     (case d of
        JDict kvs \<Rightarrow> (case map_of kvs k of None \<Rightarrow> Inl (KeyError k) | Some v \<Rightarrow> Inr v)
      | _ \<Rightarrow> Inl TypeError)"

definition py_int :: "env \<Rightarrow> json \<Rightarrow> exn + int" where
  "py_int E v =
     (case v of
        JInt n \<Rightarrow> Inr n
      | JBool b \<Rightarrow> Inr (if b then 1 else 0)
      | JStr s \<Rightarrow> (case int_of_str E s of None \<Rightarrow> Inl ValueError | Some n \<Rightarrow> Inr n)
      | _ \<Rightarrow> Inl TypeError)"

definition py_format :: "env \<Rightarrow> json \<Rightarrow> string" where
  "py_format E v = (case v of JStr s \<Rightarrow> s | _ \<Rightarrow> format_json E v)"

text \<open>Truth value of an optional string: \<^verbatim>\<open>None\<close> and \<^verbatim>\<open>""\<close> are false.\<close>

definition truthy :: "string option \<Rightarrow> bool" where
  "truthy x = (case x of None \<Rightarrow> False | Some s \<Rightarrow> s \<noteq> [])"

section \<open>The request, the response and the object\<close>

text \<open>
  \<open>args\<close> is the parsed query string, in order (\<^verbatim>\<open>request.args.get(k)\<close> is the first
  value of \<open>k\<close>); \<open>ctx_user\<close> is \<^verbatim>\<open>request.ctx.user\<close>.
\<close>

record Request =
  scheme :: string
  host :: string
  path :: string
  ip :: string
  cookies :: "string \<rightharpoonup> string"
  args :: "(string \<times> string) list"
  ctx_user :: "User option"

record response =
  body :: string
  set_cookies :: "string \<rightharpoonup> string"

text \<open>What the wrapped route returns: sanic's \<^verbatim>\<open>redirect(url)\<close> or the handler's response.\<close>

datatype reply = Redirect string | Reply response

text \<open>
  Calls made to the outside, in order: a request of the HTTP session, \<^verbatim>\<open>bot.fetch_user\<close>,
  and the call of the wrapped handler (with \<^verbatim>\<open>request.ctx.user\<close> at that moment).
\<close>

datatype event =
    Http http_request
  | Fetch_user int
  | Handler "User option"

text \<open>
  The object. \<open>bot'\<close> is \<^verbatim>\<open>self.bot\<close>, \<open>None\<close> until the application has started.
  \<open>redirects\<close> is the dict \<^verbatim>\<open>self.redirects\<close>, whose values can be \<^verbatim>\<open>None\<close>
  (\<^verbatim>\<open>reset_oauth\<close> stores it). \<open>calls\<close> is not an attribute of the Python object: it is
  the history of the calls the object has made, kept to state what a method does to
  the outside.
\<close>

record DiscordOAuth =
  client_id :: string
  client_secret :: string
  secret_key :: string
  bot' :: "TypedBot option"
  redirects :: "string \<rightharpoonup> string option"
  calls :: "event list"

definition BASE :: string where
  "BASE = ''https://discord.com/api/v8/''"

definition emit :: "event \<Rightarrow> DiscordOAuth \<Rightarrow> DiscordOAuth" where
  "emit ev self = self\<lparr>calls := calls self @ [ev]\<rparr>"

text \<open>\<^verbatim>\<open>async with self.session.get(...)\<close> / \<^verbatim>\<open>post(...)\<close>: the request is sent and recorded.\<close>

definition session_request ::
  "env \<Rightarrow> http_request \<Rightarrow> DiscordOAuth \<Rightarrow> (exn + http_response) \<times> DiscordOAuth" where
  "session_request E rq self = (http E rq, emit (Http rq) self)"

section \<open>The redirect cache\<close>

text \<open>
  \<^verbatim>\<open>self.redirects.get(url)\<close>: \<^verbatim>\<open>None\<close> for a missing key and for a key reset to
  \<^verbatim>\<open>None\<close>. Line 82 of \<^verbatim>\<open>get_url\<close> is the same expression.
\<close>

definition get_redirect_oauth :: "DiscordOAuth \<Rightarrow> string \<Rightarrow> string option" where
  "get_redirect_oauth self u = (case redirects self u of None \<Rightarrow> None | Some v \<Rightarrow> v)"

definition reset_oauth :: "DiscordOAuth \<Rightarrow> string \<Rightarrow> DiscordOAuth" where
  "reset_oauth self u = self\<lparr>redirects := (redirects self)(u \<mapsto> None)\<rparr>"

text \<open>
  \<^verbatim>\<open>reset_all_oauth\<close> loops over the keys of the dict; every key gets \<^verbatim>\<open>None\<close>.
\<close>

definition reset_all_oauth :: "DiscordOAuth \<Rightarrow> DiscordOAuth" where
  "reset_all_oauth self =
     self\<lparr>redirects := (\<lambda>u. case redirects self u of None \<Rightarrow> None | Some _ \<Rightarrow> Some None)\<rparr>"

section \<open>The provider client\<close>

definition authorize_request :: "DiscordOAuth \<Rightarrow> string \<Rightarrow> string list \<Rightarrow> http_request" where
  "authorize_request self redirect_url scope =
     \<lparr>http_method = ''GET'', url = BASE @ ''oauth2/authorize'',
      params = [(''response_type'', ''code''),
                (''scope'', join ''%20'' scope),
                (''client_id'', client_id self),
                (''redirect_uri'', redirect_url)],
      form = [], headers = []\<rparr>"

text \<open>
  Lines 90-91: \<^verbatim>\<open>url = str(r.url)\<close>, \<^verbatim>\<open>slash = url.find("?")\<close>, and the result is
  \<^verbatim>\<open>url[:slash] + url[slash:].replace("/", "%2F")\<close>.
\<close>

definition encode_query :: "string \<Rightarrow> string" where
  "encode_query u =
     (let slash = find' u CHR ''?''
      in slice_to u slash @ replace_slash (slice_from u slash))"

text \<open>Line 92: \<^verbatim>\<open>f"&state={state}" if state else ""\<close>.\<close>

definition state_suffix :: "string option \<Rightarrow> string" where
  "state_suffix state =
     (case state of
        None \<Rightarrow> []
      | Some s \<Rightarrow> if s \<noteq> [] then ''&state='' @ s else [])"

definition get_url ::
  "env \<Rightarrow> DiscordOAuth \<Rightarrow> string \<Rightarrow> string list \<Rightarrow> string option
     \<Rightarrow> (exn + string) \<times> DiscordOAuth" where
  "get_url E self redirect_url scope state =
     (case get_redirect_oauth self redirect_url of
        Some u \<Rightarrow> (Inr (u @ state_suffix state), self)
      | None \<Rightarrow>
          (case session_request E (authorize_request self redirect_url scope) self of
             (Inl e, self') \<Rightarrow> (Inl e, self')
           | (Inr r, self') \<Rightarrow> (Inr (encode_query (r_url r) @ state_suffix state), self')))"

definition token_request :: "DiscordOAuth \<Rightarrow> string option \<Rightarrow> string \<Rightarrow> http_request" where
  "token_request self code callback_url =
     \<lparr>http_method = ''POST'', url = BASE @ ''oauth2/token'',
      params = [],
      form = [(''client_id'', Some (client_id self)),
              (''client_secret'', Some (client_secret self)),
              (''grant_type'', Some ''authorization_code''),
              (''code'', code),
              (''redirect_uri'', Some callback_url)],
      headers = [(''Content-Type'', ''application/x-www-form-urlencoded'')]\<rparr>"

definition get_token ::
  "env \<Rightarrow> DiscordOAuth \<Rightarrow> string option \<Rightarrow> string \<Rightarrow> (exn + json) \<times> DiscordOAuth" where
  "get_token E self code callback_url =
     (case session_request E (token_request self code callback_url) self of
        (Inl e, self') \<Rightarrow> (Inl e, self')
      | (Inr r, self') \<Rightarrow> (r_json r, self'))"

definition userdata_request :: "string \<Rightarrow> http_request" where
  "userdata_request token =
     \<lparr>http_method = ''GET'', url = BASE @ ''users/@me'',
      params = [], form = [],
      headers = [(''Authorization'', ''Bearer '' @ token)]\<rparr>"

definition get_userdata ::
  "env \<Rightarrow> DiscordOAuth \<Rightarrow> json \<Rightarrow> (exn + User) \<times> DiscordOAuth" where
  "get_userdata E self token =
     (case session_request E (userdata_request (py_format E token)) self of
        (Inl e, self') \<Rightarrow> (Inl e, self')
      | (Inr r, self') \<Rightarrow>
          (case bot' self' of
             None \<Rightarrow> (Inl AttributeError, self')
           | Some b \<Rightarrow>
               (case r_json r of
                  Inl e \<Rightarrow> (Inl e, self')
                | Inr d \<Rightarrow> (new_User b d, self'))))"

section \<open>Cookies and the state token\<close>

text \<open>
  The argument of \<^verbatim>\<open>fetch_user\<close> in \<^verbatim>\<open>get_user_cookie\<close>:
  \<^verbatim>\<open>int(loads(reprypt.decrypt(cookie, self.secret_key))["id"])\<close>.
\<close>

definition cookie_user_id :: "env \<Rightarrow> DiscordOAuth \<Rightarrow> string \<Rightarrow> exn + int" where
  "cookie_user_id E self cookie =
     (case reprypt_decrypt E cookie (secret_key self) None of
        None \<Rightarrow> Inl DecryptError
      | Some text \<Rightarrow>
          (case loads E text of
             None \<Rightarrow> Inl ValueError
           | Some d \<Rightarrow>
               (case getitem d ''id'' of
                  Inl e \<Rightarrow> Inl e
                | Inr v \<Rightarrow> py_int E v)))"

text \<open>\<^verbatim>\<open>except reprypt.DecryptError: return None\<close>; any other exception goes on.\<close>

definition except_DecryptError ::
  "exn \<Rightarrow> DiscordOAuth \<Rightarrow> (exn + User option) \<times> DiscordOAuth" where
  "except_DecryptError e self =
     (case e of DecryptError \<Rightarrow> (Inr None, self) | _ \<Rightarrow> (Inl e, self))"

text \<open>
  \<^verbatim>\<open>self.bot.fetch_user\<close> is looked up before the argument is computed, so a missing
  bot raises first.
\<close>

definition get_user_cookie ::
  "env \<Rightarrow> DiscordOAuth \<Rightarrow> string \<Rightarrow> (exn + User option) \<times> DiscordOAuth" where
  "get_user_cookie E self cookie =
     (case bot' self of
        None \<Rightarrow> (Inl AttributeError, self)
      | Some b \<Rightarrow>
          (case cookie_user_id E self cookie of
             Inl e \<Rightarrow> except_DecryptError e self
           | Inr n \<Rightarrow>
               (case fetch_user b n of
                  Inl e \<Rightarrow> except_DecryptError e (emit (Fetch_user n) self)
                | Inr u \<Rightarrow> (Inr (Some u), emit (Fetch_user n) self))))"

definition encrypt :: "env \<Rightarrow> DiscordOAuth \<Rightarrow> json \<Rightarrow> converter option \<Rightarrow> string" where
  "encrypt E self data conv = reprypt_encrypt E (dumps E data) (secret_key self) conv"

definition make_base_url :: "Request \<Rightarrow> string" where
  "make_base_url request = scheme request @ ''://'' @ host request"

definition make_url :: "Request \<Rightarrow> string \<Rightarrow> string" where
  "make_url request p = make_base_url request @ p"

definition state_generator :: "env \<Rightarrow> DiscordOAuth \<Rightarrow> Request \<Rightarrow> string" where
  "state_generator E self request =
     reprypt_encrypt E (host request @ ip request) (secret_key self) (Some convert_hex)"

definition state_checker :: "env \<Rightarrow> DiscordOAuth \<Rightarrow> Request \<Rightarrow> string \<Rightarrow> bool" where
  "state_checker E self request state =
     (case reprypt_decrypt E state (secret_key self) (Some convert_hex) of
        None \<Rightarrow> False
      | Some text \<Rightarrow> host request @ ip request = text)"

section \<open>The route guard\<close>

datatype mode = normal | write_cookie

text \<open>\<^verbatim>\<open>request.args.get(k)\<close> and \<^verbatim>\<open>request.args.get("state", "")\<close>.\<close>

definition args_get :: "Request \<Rightarrow> string \<Rightarrow> string option" where
  "args_get request k = map_of (args request) k"

definition state_arg :: "Request \<Rightarrow> string" where
  "state_arg request = (case args_get request ''state'' of None \<Rightarrow> [] | Some s \<Rightarrow> s)"

text \<open>
  Lines 201-211: the handler is called; in mode write-cookie the cookie
  \<^verbatim>\<open>session\<close> of its response is set from \<^verbatim>\<open>request.ctx.user\<close>.
\<close>

definition call_handler ::
  "env \<Rightarrow> (Request \<Rightarrow> exn + response) \<Rightarrow> Request \<Rightarrow> mode \<Rightarrow> DiscordOAuth
     \<Rightarrow> (exn + reply) \<times> DiscordOAuth" where
  "call_handler E func request m self =
     (let self' = emit (Handler (ctx_user request)) self
      in case func request of
           Inl e \<Rightarrow> (Inl e, self')
         | Inr resp \<Rightarrow>
             (if m = write_cookie then
                (case ctx_user request of
                   None \<Rightarrow> (Inl AttributeError, self')
                 | Some u \<Rightarrow>
                     (Inr (Reply (resp\<lparr>set_cookies := (set_cookies resp)
                        (''session'' \<mapsto>
                           encrypt E self'
                             (JDict [(''id'', JInt (user_id u)), (''name'', JStr (name u))])
                             None)\<rparr>)),
                      self'))
              else (Inr (Reply resp), self')))"

text \<open>
  Lines 184-188: \<^verbatim>\<open>except ClientResponseError as e\<close> raises the 400 error with
  \<^verbatim>\<open>str(e)\<close> in its text; any other exception goes on.
\<close>

definition except_ClientResponseError :: "exn \<Rightarrow> exn" where
  "except_ClientResponseError e =
     (case e of
        ClientResponseError d \<Rightarrow> SanicException (Userdata_failed d) 400
      | _ \<Rightarrow> e)"

text \<open>
  Lines 170-176. The test is on \<^verbatim>\<open>state_generator\<close>; the function called is
  \<^verbatim>\<open>state_checker\<close>, and calling \<^verbatim>\<open>None\<close> raises \<^verbatim>\<open>TypeError\<close>.
\<close>

definition check_state ::
  "(Request \<Rightarrow> string) option \<Rightarrow> (Request \<Rightarrow> string \<Rightarrow> bool) option \<Rightarrow> Request
     \<Rightarrow> exn option" where
  "check_state state_generator' state_checker' request =
     (case state_generator' of
        None \<Rightarrow> None
      | Some _ \<Rightarrow>
          (case state_checker' of
             None \<Rightarrow> Some TypeError
           | Some chk \<Rightarrow>
               if \<not> chk request (state_arg request)
               then Some (SanicException State_mismatch 403)
               else None))"

text \<open>Lines 178-190: the body of the \<^verbatim>\<open>try\<close>.\<close>

definition fetch_login_user ::
  "env \<Rightarrow> DiscordOAuth \<Rightarrow> Request \<Rightarrow> (exn + User) \<times> DiscordOAuth" where
  "fetch_login_user E self request =
     (case get_token E self (args_get request ''code'') (make_url request (path request)) of
        (Inl e, self1) \<Rightarrow> (Inl e, self1)
      | (Inr tok, self1) \<Rightarrow>
          (case getitem tok ''access_token'' of
             Inl e \<Rightarrow> (Inl e, self1)
           | Inr t \<Rightarrow> get_userdata E self1 t))"

text \<open>Line 167: \<^verbatim>\<open>await self.get_user_cookie(data) if data else None\<close>.\<close>

definition cookie_user ::
  "env \<Rightarrow> DiscordOAuth \<Rightarrow> string option \<Rightarrow> (exn + User option) \<times> DiscordOAuth" where
  "cookie_user E self data =
     (case data of
        None \<Rightarrow> (Inr None, self)
      | Some c \<Rightarrow> if c \<noteq> [] then get_user_cookie E self c else (Inr None, self))"

definition new_route ::
  "env \<Rightarrow> DiscordOAuth \<Rightarrow> (Request \<Rightarrow> exn + response) \<Rightarrow> bool \<Rightarrow> string list
     \<Rightarrow> (Request \<Rightarrow> string) option \<Rightarrow> (Request \<Rightarrow> string \<Rightarrow> bool) option
     \<Rightarrow> Request \<Rightarrow> (exn + reply) \<times> DiscordOAuth" where
  "new_route E self func force scope state_generator' state_checker' request =
     (case bot' self of
        None \<Rightarrow> (Inl (ServiceUnavailable Not_ready), self)
      | Some _ \<Rightarrow>
          (let data = cookies request ''session'' in
           if truthy data \<or> force then
             (case cookie_user E self data of
                (Inl e, self1) \<Rightarrow> (Inl e, self1)
              | (Inr u, self1) \<Rightarrow>
                  call_handler E func (request\<lparr>ctx_user := u\<rparr>) normal self1)
           else if args request \<noteq> [] then
             (case check_state state_generator' state_checker' request of
                Some e \<Rightarrow> (Inl e, self)
              | None \<Rightarrow>
                  (case fetch_login_user E self request of
                     (Inl e, self1) \<Rightarrow> (Inl (except_ClientResponseError e), self1)
                   | (Inr u, self1) \<Rightarrow>
                       call_handler E func (request\<lparr>ctx_user := Some u\<rparr>)
                         write_cookie self1))
           else
             (let redirect_url = make_url request (path request);
                  state = (case state_generator' of
                             None \<Rightarrow> None
                           | Some gen \<Rightarrow> Some (gen request))
              in case get_url E self redirect_url scope state of
                   (Inl e, self1) \<Rightarrow> (Inl e, self1)
                 | (Inr u, self1) \<Rightarrow> (Inr (Redirect u), self1))))"

definition wrap_route ::
  "env \<Rightarrow> DiscordOAuth \<Rightarrow> (Request \<Rightarrow> exn + response) \<Rightarrow> bool \<Rightarrow> string list
     \<Rightarrow> (Request \<Rightarrow> string) option \<Rightarrow> (Request \<Rightarrow> string \<Rightarrow> bool) option
     \<Rightarrow> Request \<Rightarrow> (exn + reply) \<times> DiscordOAuth" where
  "wrap_route E self func force scope state_generator' state_checker' =
     new_route E self func force scope state_generator' state_checker'"

text \<open>
  The arguments \<^verbatim>\<open>state_generator\<close> and \<^verbatim>\<open>state_checker\<close> of \<^verbatim>\<open>require_login\<close>:
  the string \<^verbatim>\<open>"default"\<close>, \<^verbatim>\<open>None\<close>, or a function of the caller.
\<close>

datatype 'f plug = Default | NoneArg | Callable 'f

text \<open>
  Lines 224-225: \<^verbatim>\<open>self.state_generator if state_generator == "default" else None\<close>,
  and the same for the checker.
\<close>

definition require_login ::
  "env \<Rightarrow> DiscordOAuth \<Rightarrow> bool \<Rightarrow> string list
     \<Rightarrow> (Request \<Rightarrow> string) plug \<Rightarrow> (Request \<Rightarrow> string \<Rightarrow> bool) plug
     \<Rightarrow> (Request \<Rightarrow> exn + response) \<Rightarrow> Request \<Rightarrow> (exn + reply) \<times> DiscordOAuth" where
  "require_login E self force scope state_generator' state_checker' func =
     (let sg = (case state_generator' of Default \<Rightarrow> Some (state_generator E self) | _ \<Rightarrow> None);
          sc = (case state_checker' of Default \<Rightarrow> Some (state_checker E self) | _ \<Rightarrow> None)
      in wrap_route E self func force scope sg sc)"

text \<open>The provider-client calls among the recorded calls: the requests of the HTTP session.\<close>

fun is_provider_call :: "event \<Rightarrow> bool" where
  "is_provider_call (Http _) = True"
| "is_provider_call _ = False"

definition provider_calls :: "DiscordOAuth \<Rightarrow> event list" where
  "provider_calls self = filter is_provider_call (calls self)"

section \<open>The authorize URL as the specification words it\<close>

text \<open>
  The specification's sentence on the URL: the part up to the first \<^verbatim>\<open>?\<close> is kept, every
  \<^verbatim>\<open>/\<close> from the first \<^verbatim>\<open>?\<close> on becomes \<^verbatim>\<open>%2F\<close>. To be compared with \<open>encode_query\<close>.
\<close>

definition spec_encode_query :: "string \<Rightarrow> string" where
  "spec_encode_query u =
     takeWhile (\<lambda>x. x \<noteq> CHR ''?'') u @ replace_slash (dropWhile (\<lambda>x. x \<noteq> CHR ''?'') u)"

section \<open>Test doubles\<close>

text \<open>
  A small stand-in for each library, in the manner of a unit test, so that the route
  can be run on concrete requests. The cipher prefixes the text with a letter for the
  converter and the key; decryption fails on any other prefix.
\<close>

definition alice :: User where
  "alice = \<lparr>user_id = 7, name = ''alice''\<rparr>"

definition me_json :: json where
  "me_json = JDict [(''id'', JStr ''7''), (''username'', JStr ''alice'')]"

definition bot0 :: TypedBot where
  "bot0 = \<lparr>fetch_user = (\<lambda>n. if n = 7 then Inr alice else Inl (LibraryError ''NotFound'')),
           new_User = (\<lambda>d. if d = me_json then Inr alice else Inl (KeyError ''id''))\<rparr>"

definition tag0 :: "converter option \<Rightarrow> string" where
  "tag0 c = (case c of None \<Rightarrow> ''b'' | Some convert_hex \<Rightarrow> ''h'')"

definition encrypt0 :: "string \<Rightarrow> string \<Rightarrow> converter option \<Rightarrow> string" where
  "encrypt0 t k c = tag0 c @ k @ t"

definition decrypt0 :: "string \<Rightarrow> string \<Rightarrow> converter option \<Rightarrow> string option" where
  "decrypt0 s k c =
     (let p = tag0 c @ k
      in if take (length p) s = p then Some (drop (length p) s) else None)"

text \<open>
  The provider: the authorize endpoint ends at the consent page; the token endpoint
  knows the codes \<^verbatim>\<open>ABC\<close> (token \<^verbatim>\<open>T0\<close>) and \<^verbatim>\<open>OLD\<close> (token \<^verbatim>\<open>T1\<close>, no longer
  valid); the user endpoint accepts \<^verbatim>\<open>T0\<close> only.
\<close>

definition http0 :: "http_request \<Rightarrow> exn + http_response" where
  "http0 rq =
     (if url rq = BASE @ ''oauth2/authorize'' then
        Inr \<lparr>r_url = ''https://discord.com/oauth2/authorize?client_id=1&redirect_uri=http://rt.example/dash'',
             r_json = Inl ValueError\<rparr>
      else if url rq = BASE @ ''oauth2/token'' then
        (if map_of (form rq) ''code'' = Some (Some ''ABC'') then
           Inr \<lparr>r_url = url rq, r_json = Inr (JDict [(''access_token'', JStr ''T0'')])\<rparr>
         else if map_of (form rq) ''code'' = Some (Some ''OLD'') then
           Inr \<lparr>r_url = url rq, r_json = Inr (JDict [(''access_token'', JStr ''T1'')])\<rparr>
         else Inl (ClientResponseError ''400, message=Bad Request''))
      else if headers rq = [(''Authorization'', ''Bearer T0'')] then
        Inr \<lparr>r_url = url rq, r_json = Inr me_json\<rparr>
      else Inl (ClientResponseError ''401, message=Unauthorized''))"

definition E0 :: env where
  "E0 = \<lparr>reprypt_encrypt = encrypt0, reprypt_decrypt = decrypt0,
          dumps = (\<lambda>j. if j = JDict [(''id'', JInt 7), (''name'', JStr ''alice'')]
                        then ''id=7,name=alice'' else ''null''),
          loads = (\<lambda>s. if s = ''id=7,name=alice''
                        then Some (JDict [(''id'', JInt 7), (''name'', JStr ''alice'')])
                        else None),
          int_of_str = (\<lambda>s. None),
          format_json = (\<lambda>v. ''None''),
          http = http0\<rparr>"

text \<open>A provider whose authorize endpoint ends at a URL with no query string.\<close>

definition E_bare :: env where
  "E_bare = E0\<lparr>http := (\<lambda>rq. Inr \<lparr>r_url = ''https://discord.com/'', r_json = Inl ValueError\<rparr>)\<rparr>"

definition self0 :: DiscordOAuth where
  "self0 = \<lparr>client_id = ''1'', client_secret = ''s'', secret_key = ''k'',
             bot' = Some bot0, redirects = Map.empty, calls = []\<rparr>"

definition self_starting :: DiscordOAuth where
  "self_starting = self0\<lparr>bot' := None\<rparr>"

definition func0 :: "Request \<Rightarrow> exn + response" where
  "func0 request =
     Inr \<lparr>body = (case ctx_user request of None \<Rightarrow> ''anonymous'' | Some u \<Rightarrow> name u),
          set_cookies = Map.empty\<rparr>"

text \<open>A first visit, and the requests that follow it in the login flow.\<close>

definition req0 :: Request where
  "req0 = \<lparr>scheme = ''http'', host = ''rt.example'', path = ''/dash'', ip = ''10.0.0.1'',
            cookies = Map.empty, args = [], ctx_user = None\<rparr>"

definition req_elsewhere :: Request where
  "req_elsewhere = req0\<lparr>ip := ''10.0.0.2''\<rparr>"

definition req_callback :: Request where
  "req_callback = req0\<lparr>args := [(''code'', ''ABC''), (''state'', ''hkrt.example10.0.0.1'')]\<rparr>"

definition req_forged :: Request where
  "req_forged = req0\<lparr>args := [(''code'', ''ABC''), (''state'', ''forged'')]\<rparr>"

definition req_bad_code :: Request where
  "req_bad_code = req0\<lparr>args := [(''code'', ''XYZ''), (''state'', ''hkrt.example10.0.0.1'')]\<rparr>"

definition req_old_code :: Request where
  "req_old_code = req0\<lparr>args := [(''code'', ''OLD''), (''state'', ''hkrt.example10.0.0.1'')]\<rparr>"

definition req_session :: Request where
  "req_session = req0\<lparr>cookies := [''session'' \<mapsto> ''bkid=7,name=alice'']\<rparr>"

definition req_corrupt :: Request where
  "req_corrupt = req0\<lparr>cookies := [''session'' \<mapsto> ''garbage'']\<rparr>"

text \<open>A cookie that decrypts to text that is no JSON, and a bot that finds no user.\<close>

definition bot_down :: TypedBot where
  "bot_down = bot0\<lparr>fetch_user := (\<lambda>n. Inl (LibraryError ''NotFound''))\<rparr>"

definition self_down :: DiscordOAuth where
  "self_down = self0\<lparr>bot' := Some bot_down\<rparr>"

definition req_not_json :: Request where
  "req_not_json = req0\<lparr>cookies := [''session'' \<mapsto> ''bknot json'']\<rparr>"

text \<open>A generator and a checker of the caller's own.\<close>

definition gen1 :: "Request \<Rightarrow> string" where
  "gen1 request = ''token-'' @ ip request"

definition chk1 :: "Request \<Rightarrow> string \<Rightarrow> bool" where
  "chk1 request s = (s = ''token-'' @ ip request)"

section \<open>Facts used throughout\<close>

lemmas fx = alice_def me_json_def bot0_def tag0_def encrypt0_def decrypt0_def http0_def
  E0_def self0_def func0_def req0_def E_bare_def self_starting_def req_elsewhere_def
  req_callback_def req_forged_def req_bad_code_def req_old_code_def req_session_def
  req_corrupt_def gen1_def chk1_def

lemma call_handler_normal:
  "call_handler E func rq normal self
     = ((case func rq of Inl e \<Rightarrow> Inl e | Inr resp \<Rightarrow> Inr (Reply resp)),
        emit (Handler (ctx_user rq)) self)"
  by (simp add: call_handler_def Let_def split: sum.splits)

lemma handler_result_normal:
  "call_handler E func rq normal self
     = ((case func rq of Inl e \<Rightarrow> Inl e | Inr resp \<Rightarrow> Inr (Reply resp)),
        self\<lparr>calls := calls self @ [Handler (ctx_user rq)]\<rparr>)"
  by (simp add: call_handler_normal emit_def)

lemma provider_calls_emit:
  "provider_calls (emit ev self) = provider_calls self @ (if is_provider_call ev then [ev] else [])"
  by (simp add: provider_calls_def emit_def)

lemma call_handler_provider_calls:
  "provider_calls (snd (call_handler E func rq m self)) = provider_calls self"
  by (simp add: call_handler_def Let_def provider_calls_emit split: sum.splits option.splits)

lemma get_user_cookie_provider_calls:
  "provider_calls (snd (get_user_cookie E self c)) = provider_calls self"
  by (simp add: get_user_cookie_def except_DecryptError_def provider_calls_emit
      split: option.splits sum.splits exn.splits)

lemma cookie_user_provider_calls:
  "provider_calls (snd (cookie_user E self d)) = provider_calls self"
  by (simp add: cookie_user_def get_user_cookie_provider_calls split: option.splits)

lemma callback_phase_route:
  assumes "bot' self = Some b"
    and "\<not> truthy (cookies request ''session'')" and "\<not> force"
    and "args request \<noteq> []"
    and "check_state sg sc request = None"
  shows "new_route E self func force scope sg sc request
           = (case fetch_login_user E self request of
                (Inl e, self1) \<Rightarrow> (Inl (except_ClientResponseError e), self1)
              | (Inr u, self1) \<Rightarrow>
                  call_handler E func (request\<lparr>ctx_user := Some u\<rparr>) write_cookie self1)"
  using assms by (simp add: new_route_def)

lemma args_get_nonempty: "args_get request k = Some v \<Longrightarrow> args request \<noteq> []"
  by (auto simp: args_get_def)

lemma self0_fields:
  "bot' self0 = Some bot0" "secret_key self0 = ''k''" "calls self0 = []"
  "client_id self0 = ''1''" "client_secret self0 = ''s''"
  by (simp_all add: self0_def)

lemma callback_requests:
  "\<not> truthy (cookies req_callback ''session'')"
  "\<not> truthy (cookies req_bad_code ''session'')"
  "\<not> truthy (cookies req_old_code ''session'')"
  "\<not> truthy (cookies req_forged ''session'')"
  "args_get req_callback ''code'' = Some ''ABC''"
  "args_get req_bad_code ''code'' = Some ''XYZ''"
  "args_get req_old_code ''code'' = Some ''OLD''"
  "args_get req_forged ''code'' = Some ''ABC''"
  "state_arg req_callback = ''hkrt.example10.0.0.1''"
  "state_arg req_bad_code = ''hkrt.example10.0.0.1''"
  "state_arg req_old_code = ''hkrt.example10.0.0.1''"
  "state_arg req_forged = ''forged''"
  "make_url req_callback (path req_callback) = ''http://rt.example/dash''"
  "make_url req_bad_code (path req_bad_code) = ''http://rt.example/dash''"
  "make_url req_old_code (path req_old_code) = ''http://rt.example/dash''"
  "make_url req_forged (path req_forged) = ''http://rt.example/dash''"
  by (simp_all add: req_callback_def req_bad_code_def req_old_code_def req_forged_def req0_def
      truthy_def args_get_def state_arg_def make_url_def make_base_url_def)

lemma state_checker0:
  "state_checker E0 self0 req_callback ''hkrt.example10.0.0.1''"
  "state_checker E0 self0 req_bad_code ''hkrt.example10.0.0.1''"
  "state_checker E0 self0 req_old_code ''hkrt.example10.0.0.1''"
  "\<not> state_checker E0 self0 req_forged ''forged''"
  by (simp_all add: state_checker_def E0_def decrypt0_def tag0_def self0_def
      req_callback_def req_bad_code_def req_old_code_def req_forged_def req0_def)

lemma provider0:
  "http E0 (token_request self0 (Some ''ABC'') ''http://rt.example/dash'')
     = Inr \<lparr>r_url = BASE @ ''oauth2/token'', r_json = Inr (JDict [(''access_token'', JStr ''T0'')])\<rparr>"
  "http E0 (token_request self0 (Some ''XYZ'') ''http://rt.example/dash'')
     = Inl (ClientResponseError ''400, message=Bad Request'')"
  "http E0 (token_request self0 (Some ''OLD'') ''http://rt.example/dash'')
     = Inr \<lparr>r_url = BASE @ ''oauth2/token'', r_json = Inr (JDict [(''access_token'', JStr ''T1'')])\<rparr>"
  "http E0 (userdata_request ''T0'') = Inr \<lparr>r_url = BASE @ ''users/@me'', r_json = Inr me_json\<rparr>"
  "http E0 (userdata_request ''T1'') = Inl (ClientResponseError ''401, message=Unauthorized'')"
  by (simp_all add: E0_def http0_def token_request_def userdata_request_def BASE_def)

lemma get_url_keeps_redirects:
  "redirects (snd (get_url E self u scope state)) = redirects self"
  by (simp add: get_url_def session_request_def emit_def split: option.splits sum.splits)

lemma get_url_miss_calls:
  "get_redirect_oauth self u = None \<Longrightarrow>
   calls (snd (get_url E self u scope state)) = calls self @ [Http (authorize_request self u scope)]"
  by (simp add: get_url_def session_request_def emit_def split: sum.splits)

lemma get_url_after_reset:
  "calls (snd (get_url E (reset_oauth self u) u scope state))
     = calls self @ [Http (authorize_request self u scope)]"
proof -
  have miss: "get_redirect_oauth (reset_oauth self u) u = None"
    by (simp add: get_redirect_oauth_def reset_oauth_def)
  have same: "authorize_request (reset_oauth self u) u scope = authorize_request self u scope"
    by (simp add: authorize_request_def reset_oauth_def)
  have hist: "calls (reset_oauth self u) = calls self"
    by (simp add: reset_oauth_def)
  show ?thesis
    using get_url_miss_calls [OF miss, of E scope state]
    by (simp add: same hist)
qed

lemma require_login_default:
  "require_login E self force scope Default Default func
     = wrap_route E self func force scope
         (Some (state_generator E self)) (Some (state_checker E self))"
  by (simp add: require_login_def)

lemma require_login_none:
  "require_login E self force scope NoneArg NoneArg func
     = wrap_route E self func force scope None None"
  by (simp add: require_login_def)

lemma require_login_callable:
  "require_login E self force scope (Callable gen) (Callable chk) func
     = wrap_route E self func force scope None None"
  by (simp add: require_login_def)

lemma encode_query_with_query:
  assumes "CHR ''?'' \<in> set u"
  shows "encode_query u = spec_encode_query u"
proof -
  have "find' u CHR ''?'' = int (length (takeWhile (\<lambda>x. x \<noteq> CHR ''?'') u))"
    using assms by (simp add: find'_def)
  then show ?thesis
    by (simp add: encode_query_def spec_encode_query_def slice_to_def slice_from_def
        takeWhile_eq_take [symmetric] dropWhile_eq_drop [symmetric])
qed

section \<open>Service-unavailable precedence\<close>

text \<open>
  C8. While the bot is not there yet (\<^verbatim>\<open>self.bot is None\<close>), every request fails with
  the 503 error at once: the object is left as it was, so no provider request, no
  \<^verbatim>\<open>fetch_user\<close> and no call of the wrapped handler is made for it.
\<close>

theorem not_ready_503:
  assumes "bot' self = None"
  shows "new_route E self func force scope sg sc request
           = (Inl (SanicException Not_ready 503), self)"
  using assms by (simp add: new_route_def ServiceUnavailable_def)

theorem not_ready_503_witness:
  "bot' self_starting = None \<and>
   new_route E0 self_starting func0 False [''identify''] None None req0
     = (Inl (SanicException Not_ready 503), self_starting)"
  using not_ready_503 [of self_starting E0 func0 False "[''identify'']" None None req0]
  by (simp add: self_starting_def self0_def)

section \<open>Cookies that do not decrypt\<close>

text \<open>
  C6. A request comes with a \<^verbatim>\<open>session\<close> cookie, not empty, on which
  \<^verbatim>\<open>reprypt.decrypt\<close> raises \<^verbatim>\<open>DecryptError\<close>. Then the wrapped handler is called, once,
  with \<^verbatim>\<open>request.ctx.user = None\<close>, nothing else is called, and the route returns what
  the handler returns: the failure to decrypt is not raised to the caller.
\<close>

theorem corrupted_cookie_is_anonymous:
  assumes "bot' self = Some b"
    and "cookies request ''session'' = Some c" and "c \<noteq> []"
    and "reprypt_decrypt E c (secret_key self) None = None"
  shows "new_route E self func force scope sg sc request
           = ((case func (request\<lparr>ctx_user := None\<rparr>) of
                 Inl e \<Rightarrow> Inl e
               | Inr resp \<Rightarrow> Inr (Reply resp)),
              emit (Handler None) self)"
proof -
  have "cookie_user_id E self c = Inl DecryptError"
    using assms(4) by (simp add: cookie_user_id_def)
  then have "get_user_cookie E self c = (Inr None, self)"
    using assms(1) by (simp add: get_user_cookie_def except_DecryptError_def)
  then have "cookie_user E self (cookies request ''session'') = (Inr None, self)"
    using assms(2,3) by (simp add: cookie_user_def)
  then show ?thesis
    using assms(1,2,3) by (simp add: new_route_def truthy_def call_handler_normal)
qed

theorem corrupted_cookie_is_anonymous_witness:
  "bot' self0 = Some bot0 \<and> cookies req_corrupt ''session'' = Some ''garbage'' \<and> ''garbage'' \<noteq> []
   \<and> reprypt_decrypt E0 ''garbage'' (secret_key self0) None = None
   \<and> new_route E0 self0 func0 False [''identify''] None None req_corrupt
       = (Inr (Reply \<lparr>body = ''anonymous'', set_cookies = Map.empty\<rparr>), self0\<lparr>calls := [Handler None]\<rparr>)"
proof -
  have h: "bot' self0 = Some bot0" "cookies req_corrupt ''session'' = Some ''garbage''" "''garbage'' \<noteq> []"
    "reprypt_decrypt E0 ''garbage'' (secret_key self0) None = None"
    by (simp_all add: fx)
  show ?thesis
    using h corrupted_cookie_is_anonymous [OF h, of func0 False "[''identify'']" None None]
    by (simp add: fx emit_def)
qed

section \<open>The cookie-present and force branch\<close>

text \<open>
  C7, as the code has it. In the branch taken when a \<^verbatim>\<open>session\<close> cookie is present
  or \<open>force\<close> is set, the route sends no request to the provider (none of \<^verbatim>\<open>get_url\<close>,
  \<^verbatim>\<open>get_token\<close>, \<^verbatim>\<open>get_userdata\<close> runs), whatever happens. The handler is called with
  \<^verbatim>\<open>None\<close> when there is no cookie value and when \<^verbatim>\<open>reprypt.decrypt\<close> raises
  \<^verbatim>\<open>DecryptError\<close>; it is called with the user the bot returns when the cookie decrypts,
  \<^verbatim>\<open>loads\<close> parses the text, the value under \<^verbatim>\<open>id\<close> converts with \<^verbatim>\<open>int\<close> and
  \<^verbatim>\<open>bot.fetch_user\<close> returns. In these cases the route returns the handler's response as
  it is: the mode stays \<open>normal\<close> and no cookie is set.
\<close>

theorem cookie_or_force_frame:
  assumes "bot' self = Some b"
    and "truthy (cookies request ''session'') \<or> force"
  shows
    "provider_calls (snd (new_route E self func force scope sg sc request)) = provider_calls self
   \<and> (\<not> truthy (cookies request ''session'')
       \<longrightarrow> new_route E self func force scope sg sc request
             = ((case func (request\<lparr>ctx_user := None\<rparr>) of
                   Inl e \<Rightarrow> Inl e
                 | Inr resp \<Rightarrow> Inr (Reply resp)),
                self\<lparr>calls := calls self @ [Handler None]\<rparr>))
   \<and> (cookies request ''session'' = Some c \<and> c \<noteq> []
       \<and> reprypt_decrypt E c (secret_key self) None = None
       \<longrightarrow> new_route E self func force scope sg sc request
             = ((case func (request\<lparr>ctx_user := None\<rparr>) of
                   Inl e \<Rightarrow> Inl e
                 | Inr resp \<Rightarrow> Inr (Reply resp)),
                self\<lparr>calls := calls self @ [Handler None]\<rparr>))
   \<and> (cookies request ''session'' = Some c \<and> c \<noteq> []
       \<and> reprypt_decrypt E c (secret_key self) None = Some plain
       \<and> loads E plain = Some d \<and> getitem d ''id'' = Inr v \<and> py_int E v = Inr n
       \<and> fetch_user b n = Inr u
       \<longrightarrow> new_route E self func force scope sg sc request
             = ((case func (request\<lparr>ctx_user := Some u\<rparr>) of
                   Inl e \<Rightarrow> Inl e
                 | Inr resp \<Rightarrow> Inr (Reply resp)),
                self\<lparr>calls := calls self @ [Fetch_user n, Handler (Some u)]\<rparr>))"
proof -
  obtain r s where rs: "cookie_user E self (cookies request ''session'') = (r, s)"
    by (cases "cookie_user E self (cookies request ''session'')")
  have s: "provider_calls s = provider_calls self"
    using cookie_user_provider_calls [of E self "cookies request ''session''"] rs by simp
  have route: "new_route E self func force scope sg sc request
      = (case cookie_user E self (cookies request ''session'') of
           (Inl e, self1) \<Rightarrow> (Inl e, self1)
         | (Inr u, self1) \<Rightarrow> call_handler E func (request\<lparr>ctx_user := u\<rparr>) normal self1)"
    using assms by (simp add: new_route_def)
  have one: "provider_calls (snd (new_route E self func force scope sg sc request)) = provider_calls self"
    using s by (simp add: route rs call_handler_provider_calls split: sum.splits)
  have two: "\<not> truthy (cookies request ''session'')
       \<longrightarrow> new_route E self func force scope sg sc request
             = ((case func (request\<lparr>ctx_user := None\<rparr>) of
                   Inl e \<Rightarrow> Inl e
                 | Inr resp \<Rightarrow> Inr (Reply resp)),
                self\<lparr>calls := calls self @ [Handler None]\<rparr>)"
    by (simp add: route cookie_user_def truthy_def handler_result_normal split: option.splits)
  have three: "cookies request ''session'' = Some c \<and> c \<noteq> []
       \<and> reprypt_decrypt E c (secret_key self) None = None
       \<longrightarrow> new_route E self func force scope sg sc request
             = ((case func (request\<lparr>ctx_user := None\<rparr>) of
                   Inl e \<Rightarrow> Inl e
                 | Inr resp \<Rightarrow> Inr (Reply resp)),
                self\<lparr>calls := calls self @ [Handler None]\<rparr>)"
    using assms(1)
    by (simp add: route cookie_user_def get_user_cookie_def cookie_user_id_def
        except_DecryptError_def handler_result_normal)
  have four: "cookies request ''session'' = Some c \<and> c \<noteq> []
       \<and> reprypt_decrypt E c (secret_key self) None = Some plain
       \<and> loads E plain = Some d \<and> getitem d ''id'' = Inr v \<and> py_int E v = Inr n
       \<and> fetch_user b n = Inr u
       \<longrightarrow> new_route E self func force scope sg sc request
             = ((case func (request\<lparr>ctx_user := Some u\<rparr>) of
                   Inl e \<Rightarrow> Inl e
                 | Inr resp \<Rightarrow> Inr (Reply resp)),
                self\<lparr>calls := calls self @ [Fetch_user n, Handler (Some u)]\<rparr>)"
    using assms(1)
    by (simp add: route cookie_user_def get_user_cookie_def cookie_user_id_def
        handler_result_normal emit_def)
  from one two three four show ?thesis by blast
qed

theorem cookie_or_force_frame_witness:
  "bot' self0 = Some bot0
   \<and> \<not> truthy (cookies req0 ''session'')
   \<and> provider_calls (snd (new_route E0 self0 func0 True [''identify''] None None req0)) = []
   \<and> new_route E0 self0 func0 True [''identify''] None None req0
       = (Inr (Reply \<lparr>body = ''anonymous'', set_cookies = Map.empty\<rparr>),
          self0\<lparr>calls := [Handler None]\<rparr>)
   \<and> cookies req_corrupt ''session'' = Some ''garbage'' \<and> ''garbage'' \<noteq> []
   \<and> truthy (cookies req_corrupt ''session'')
   \<and> reprypt_decrypt E0 ''garbage'' (secret_key self0) None = None
   \<and> new_route E0 self0 func0 False [''identify''] None None req_corrupt
       = (Inr (Reply \<lparr>body = ''anonymous'', set_cookies = Map.empty\<rparr>),
          self0\<lparr>calls := [Handler None]\<rparr>)
   \<and> cookies req_session ''session'' = Some ''bkid=7,name=alice'' \<and> ''bkid=7,name=alice'' \<noteq> []
   \<and> truthy (cookies req_session ''session'')
   \<and> reprypt_decrypt E0 ''bkid=7,name=alice'' (secret_key self0) None = Some ''id=7,name=alice''
   \<and> loads E0 ''id=7,name=alice'' = Some (JDict [(''id'', JInt 7), (''name'', JStr ''alice'')])
   \<and> getitem (JDict [(''id'', JInt 7), (''name'', JStr ''alice'')]) ''id'' = Inr (JInt 7)
   \<and> py_int E0 (JInt 7) = Inr 7
   \<and> fetch_user bot0 7 = Inr alice
   \<and> provider_calls (snd (new_route E0 self0 func0 False [''identify''] None None req_session)) = []
   \<and> new_route E0 self0 func0 False [''identify''] None None req_session
       = (Inr (Reply \<lparr>body = ''alice'', set_cookies = Map.empty\<rparr>),
          self0\<lparr>calls := [Fetch_user 7, Handler (Some alice)]\<rparr>)"
proof -
  have b: "bot' self0 = Some bot0" by (rule self0_fields(1))
  have p: "provider_calls self0 = []" by (simp add: provider_calls_def self0_def)
  have f: "\<not> truthy (cookies req0 ''session'')" "\<not> truthy (cookies req0 ''session'') \<or> True"
    "truthy (cookies req0 ''session'') \<or> True"
    by (simp_all add: req0_def truthy_def)
  have g: "cookies req_corrupt ''session'' = Some ''garbage''" "''garbage'' \<noteq> []"
    "truthy (cookies req_corrupt ''session'')" "truthy (cookies req_corrupt ''session'') \<or> False"
    "reprypt_decrypt E0 ''garbage'' (secret_key self0) None = None"
    by (simp_all add: req_corrupt_def req0_def truthy_def E0_def decrypt0_def tag0_def self0_def)
  have vs: "cookies req_session ''session'' = Some ''bkid=7,name=alice''" "''bkid=7,name=alice'' \<noteq> []"
    "truthy (cookies req_session ''session'')" "truthy (cookies req_session ''session'') \<or> False"
    "reprypt_decrypt E0 ''bkid=7,name=alice'' (secret_key self0) None = Some ''id=7,name=alice''"
    "loads E0 ''id=7,name=alice'' = Some (JDict [(''id'', JInt 7), (''name'', JStr ''alice'')])"
    "getitem (JDict [(''id'', JInt 7), (''name'', JStr ''alice'')]) ''id'' = Inr (JInt 7)"
    "py_int E0 (JInt 7) = Inr 7"
    "fetch_user bot0 7 = Inr alice"
    by (simp_all add: req_session_def req0_def truthy_def E0_def decrypt0_def tag0_def self0_def
        getitem_def py_int_def bot0_def)
  have h: "func0 (req0\<lparr>ctx_user := None\<rparr>) = Inr \<lparr>body = ''anonymous'', set_cookies = Map.empty\<rparr>"
    "func0 (req_corrupt\<lparr>ctx_user := None\<rparr>) = Inr \<lparr>body = ''anonymous'', set_cookies = Map.empty\<rparr>"
    "func0 (req_session\<lparr>ctx_user := Some alice\<rparr>) = Inr \<lparr>body = ''alice'', set_cookies = Map.empty\<rparr>"
    by (simp_all add: func0_def alice_def)
  note x = cookie_or_force_frame [OF b f(3), where E = E0 and func = func0
      and scope = "[''identify'']" and sg = None and sc = None]
  note y = cookie_or_force_frame [OF b g(4), where E = E0 and func = func0
      and scope = "[''identify'']" and sg = None and sc = None and c = "''garbage''"]
  note z = cookie_or_force_frame [OF b vs(4), where E = E0 and func = func0
      and scope = "[''identify'']" and sg = None and sc = None and c = "''bkid=7,name=alice''"
      and plain = "''id=7,name=alice''" and d = "JDict [(''id'', JInt 7), (''name'', JStr ''alice'')]"
      and v = "JInt 7" and n = "7" and u = alice]
  have X: "provider_calls (snd (new_route E0 self0 func0 True [''identify''] None None req0)) = []"
    "new_route E0 self0 func0 True [''identify''] None None req0
       = (Inr (Reply \<lparr>body = ''anonymous'', set_cookies = Map.empty\<rparr>),
          self0\<lparr>calls := [Handler None]\<rparr>)"
    using x f(1) by (simp_all add: h p self0_fields provider_calls_def)
  have Y: "new_route E0 self0 func0 False [''identify''] None None req_corrupt
       = (Inr (Reply \<lparr>body = ''anonymous'', set_cookies = Map.empty\<rparr>),
          self0\<lparr>calls := [Handler None]\<rparr>)"
    using y g by (simp add: h self0_fields)
  have Z: "provider_calls (snd (new_route E0 self0 func0 False [''identify''] None None req_session)) = []"
    "new_route E0 self0 func0 False [''identify''] None None req_session
       = (Inr (Reply \<lparr>body = ''alice'', set_cookies = Map.empty\<rparr>),
          self0\<lparr>calls := [Fetch_user 7, Handler (Some alice)]\<rparr>)"
    using z vs by (simp_all add: h p self0_fields provider_calls_def)
  show ?thesis
    using b f(1) g(1,2,3,5) vs(1,2,3,5,6,7,8,9) X Y Z by simp
qed

text \<open>
  C7 as it was stated fails: the handler is not called for every request of this
  branch. A cookie that decrypts to text that is no JSON makes \<^verbatim>\<open>loads\<close> raise, and a
  cookie of a user the bot cannot fetch makes \<^verbatim>\<open>fetch_user\<close> raise; \<^verbatim>\<open>get_user_cookie\<close>
  catches \<^verbatim>\<open>DecryptError\<close> only, so the route raises before line 201.
\<close>

theorem handler_not_reached_counterexample:
  "truthy (cookies req_not_json ''session'')
   \<and> new_route E0 self0 func0 False [''identify''] None None req_not_json
       = (Inl ValueError, self0)
   \<and> truthy (cookies req_session ''session'')
   \<and> new_route E0 self_down func0 False [''identify''] None None req_session
       = (Inl (LibraryError ''NotFound''), self_down\<lparr>calls := [Fetch_user 7]\<rparr>)"
  by (simp add: new_route_def cookie_user_def get_user_cookie_def cookie_user_id_def
      except_DecryptError_def getitem_def py_int_def emit_def truthy_def
      req_not_json_def req_session_def req0_def self_down_def bot_down_def self0_def bot0_def
      E0_def decrypt0_def tag0_def)

section \<open>The state token\<close>

text \<open>
  C5. Provided the cipher gives back the text \<^verbatim>\<open>host + ip\<close> of a request when it
  decrypts what it encrypted with the same key and the hex converter:
  \<open>state_checker\<close> accepts the token \<open>state_generator\<close> made for that request; it rejects
  that token for every request whose \<^verbatim>\<open>host + ip\<close> is another string; and on a token
  whose decryption raises \<^verbatim>\<open>DecryptError\<close> it returns false.
\<close>

theorem state_binding:
  assumes "reprypt_decrypt E
             (reprypt_encrypt E (host req1 @ ip req1) (secret_key self) (Some convert_hex))
             (secret_key self) (Some convert_hex)
           = Some (host req1 @ ip req1)"
  shows "state_checker E self req1 (state_generator E self req1)
       \<and> (host req1 @ ip req1 \<noteq> host req2 @ ip req2 \<longrightarrow>
            \<not> state_checker E self req2 (state_generator E self req1))
       \<and> (reprypt_decrypt E s (secret_key self) (Some convert_hex) = None \<longrightarrow>
            \<not> state_checker E self req3 s)"
  using assms by (auto simp: state_checker_def state_generator_def)

theorem state_binding_witness:
  "reprypt_decrypt E0
     (reprypt_encrypt E0 (host req0 @ ip req0) (secret_key self0) (Some convert_hex))
     (secret_key self0) (Some convert_hex)
   = Some (host req0 @ ip req0)
   \<and> state_checker E0 self0 req0 (state_generator E0 self0 req0)
   \<and> host req0 @ ip req0 \<noteq> host req_elsewhere @ ip req_elsewhere
   \<and> \<not> state_checker E0 self0 req_elsewhere (state_generator E0 self0 req0)
   \<and> reprypt_decrypt E0 ''forged'' (secret_key self0) (Some convert_hex) = None
   \<and> \<not> state_checker E0 self0 req0 ''forged''"
proof -
  have h: "reprypt_decrypt E0
     (reprypt_encrypt E0 (host req0 @ ip req0) (secret_key self0) (Some convert_hex))
     (secret_key self0) (Some convert_hex)
   = Some (host req0 @ ip req0)"
    by (simp add: fx)
  have d: "host req0 @ ip req0 \<noteq> host req_elsewhere @ ip req_elsewhere"
    by (simp add: fx)
  have f: "reprypt_decrypt E0 ''forged'' (secret_key self0) (Some convert_hex) = None"
    by (simp add: fx)
  show ?thesis
    using h d f state_binding [OF h, of req_elsewhere "''forged''" req0]
    by blast
qed

section \<open>The session cookie, written and read\<close>

text \<open>
  C10. In mode write-cookie the route sets the cookie \<^verbatim>\<open>session\<close> to \<open>encrypt\<close> of the
  dict with the keys \<^verbatim>\<open>id\<close> and \<^verbatim>\<open>name\<close> of the user, under \<open>secret_key\<close> and no
  converter argument. Provided the cipher and \<^verbatim>\<open>dumps\<close>/\<^verbatim>\<open>loads\<close> give that dict back,
  \<open>get_user_cookie\<close> on a later state of the object with the same key reads the same
  user id from this cookie and asks the bot for that user.
\<close>

theorem session_cookie_agreement:
  assumes "secret_key self' = secret_key self" and "bot' self' = Some b"
    and "reprypt_decrypt E
           (reprypt_encrypt E
              (dumps E (JDict [(''id'', JInt (user_id u)), (''name'', JStr (name u))]))
              (secret_key self) None)
           (secret_key self) None
         = Some (dumps E (JDict [(''id'', JInt (user_id u)), (''name'', JStr (name u))]))"
    and "loads E (dumps E (JDict [(''id'', JInt (user_id u)), (''name'', JStr (name u))]))
         = Some (JDict [(''id'', JInt (user_id u)), (''name'', JStr (name u))])"
    and "func (request\<lparr>ctx_user := Some u\<rparr>) = Inr resp"
  shows "call_handler E func (request\<lparr>ctx_user := Some u\<rparr>) write_cookie self
           = (Inr (Reply (resp\<lparr>set_cookies := (set_cookies resp)
                (''session'' \<mapsto>
                   encrypt E self
                     (JDict [(''id'', JInt (user_id u)), (''name'', JStr (name u))]) None)\<rparr>)),
              emit (Handler (Some u)) self)
       \<and> cookie_user_id E self'
            (encrypt E self (JDict [(''id'', JInt (user_id u)), (''name'', JStr (name u))]) None)
           = Inr (user_id u)
       \<and> (fetch_user b (user_id u) = Inr v \<longrightarrow>
            get_user_cookie E self'
              (encrypt E self (JDict [(''id'', JInt (user_id u)), (''name'', JStr (name u))]) None)
            = (Inr (Some v), emit (Fetch_user (user_id u)) self'))"
  using assms
  by (simp add: call_handler_def Let_def encrypt_def emit_def cookie_user_id_def getitem_def
      py_int_def get_user_cookie_def)

theorem session_cookie_agreement_witness:
  "secret_key (self0\<lparr>calls := [Handler (Some alice)]\<rparr>) = secret_key self0
   \<and> bot' (self0\<lparr>calls := [Handler (Some alice)]\<rparr>) = Some bot0
   \<and> reprypt_decrypt E0
        (reprypt_encrypt E0
           (dumps E0 (JDict [(''id'', JInt (user_id alice)), (''name'', JStr (name alice))]))
           (secret_key self0) None)
        (secret_key self0) None
      = Some (dumps E0 (JDict [(''id'', JInt (user_id alice)), (''name'', JStr (name alice))]))
   \<and> loads E0 (dumps E0 (JDict [(''id'', JInt (user_id alice)), (''name'', JStr (name alice))]))
      = Some (JDict [(''id'', JInt (user_id alice)), (''name'', JStr (name alice))])
   \<and> func0 (req_callback\<lparr>ctx_user := Some alice\<rparr>) = Inr \<lparr>body = ''alice'', set_cookies = Map.empty\<rparr>
   \<and> fetch_user bot0 (user_id alice) = Inr alice
   \<and> call_handler E0 func0 (req_callback\<lparr>ctx_user := Some alice\<rparr>) write_cookie self0
      = (Inr (Reply \<lparr>body = ''alice'', set_cookies = [''session'' \<mapsto> ''bkid=7,name=alice'']\<rparr>),
         self0\<lparr>calls := [Handler (Some alice)]\<rparr>)
   \<and> cookie_user_id E0 (self0\<lparr>calls := [Handler (Some alice)]\<rparr>) ''bkid=7,name=alice'' = Inr 7
   \<and> get_user_cookie E0 (self0\<lparr>calls := [Handler (Some alice)]\<rparr>) ''bkid=7,name=alice''
      = (Inr (Some alice), self0\<lparr>calls := [Handler (Some alice), Fetch_user 7]\<rparr>)"
proof -
  have h1: "secret_key (self0\<lparr>calls := [Handler (Some alice)]\<rparr>) = secret_key self0"
    and h2: "bot' (self0\<lparr>calls := [Handler (Some alice)]\<rparr>) = Some bot0"
    by (simp_all add: self0_def)
  have h3: "reprypt_decrypt E0
        (reprypt_encrypt E0
           (dumps E0 (JDict [(''id'', JInt (user_id alice)), (''name'', JStr (name alice))]))
           (secret_key self0) None)
        (secret_key self0) None
      = Some (dumps E0 (JDict [(''id'', JInt (user_id alice)), (''name'', JStr (name alice))]))"
    by (simp add: fx)
  have h4: "loads E0 (dumps E0 (JDict [(''id'', JInt (user_id alice)), (''name'', JStr (name alice))]))
      = Some (JDict [(''id'', JInt (user_id alice)), (''name'', JStr (name alice))])"
    by (simp add: fx)
  have h5: "func0 (req_callback\<lparr>ctx_user := Some alice\<rparr>) = Inr \<lparr>body = ''alice'', set_cookies = Map.empty\<rparr>"
    by (simp add: fx)
  have h6: "fetch_user bot0 (user_id alice) = Inr alice"
    by (simp add: fx)
  have e: "encrypt E0 self0 (JDict [(''id'', JInt (user_id alice)), (''name'', JStr (name alice))]) None
      = ''bkid=7,name=alice''"
    by (simp add: fx encrypt_def)
  show ?thesis
    using h1 h2 h3 h4 h5 h6
      session_cookie_agreement [where self = self0
        and self' = "self0\<lparr>calls := [Handler (Some alice)]\<rparr>" and E = E0 and u = alice
        and func = func0 and request = req_callback and v = alice and b = bot0,
        OF h1 h2 h3 h4 h5]
    unfolding e by (simp add: emit_def self0_def alice_def)
qed

section \<open>The callback phase\<close>

text \<open>
  C4. A request in the callback phase (bot ready, no \<^verbatim>\<open>session\<close> cookie, \<open>force\<close> off)
  carries a \<^verbatim>\<open>code\<close> and a state the configured checker accepts. When the token
  endpoint answers with an \<^verbatim>\<open>access_token\<close>, the user endpoint answers and the handler
  returns a response, the route has sent the token request, then the user request, then
  called the handler with that user in \<^verbatim>\<open>request.ctx.user\<close>, and the response it returns
  has the cookie \<^verbatim>\<open>session\<close> set to \<open>encrypt\<close> of the user's \<^verbatim>\<open>id\<close> and \<^verbatim>\<open>name\<close>. When
  the token request or the user request raises \<^verbatim>\<open>ClientResponseError\<close>, the route raises
  the 400 error carrying that error's text; the handler is not called and there is no
  response to carry a cookie.
\<close>

theorem callback_success_path:
  assumes "bot' self = Some b"
    and "\<not> truthy (cookies request ''session'')" and "\<not> force"
    and "args_get request ''code'' = Some code"
    and "sc = Some chk" and "chk request (state_arg request)"
  shows
    "(http E (token_request self (Some code) (make_url request (path request))) = Inr rt
      \<and> r_json rt = Inr tok \<and> getitem tok ''access_token'' = Inr t
      \<and> http E (userdata_request (py_format E t)) = Inr ru
      \<and> r_json ru = Inr d \<and> new_User b d = Inr u
      \<and> func (request\<lparr>ctx_user := Some u\<rparr>) = Inr resp
      \<longrightarrow> new_route E self func force scope sg sc request
            = (Inr (Reply (resp\<lparr>set_cookies := (set_cookies resp)
                 (''session'' \<mapsto>
                    encrypt E self
                      (JDict [(''id'', JInt (user_id u)), (''name'', JStr (name u))]) None)\<rparr>)),
               self\<lparr>calls := calls self @
                 [Http (token_request self (Some code) (make_url request (path request))),
                  Http (userdata_request (py_format E t)),
                  Handler (Some u)]\<rparr>))
   \<and> (http E (token_request self (Some code) (make_url request (path request)))
        = Inl (ClientResponseError detail)
      \<longrightarrow> new_route E self func force scope sg sc request
            = (Inl (SanicException (Userdata_failed detail) 400),
               self\<lparr>calls := calls self @
                 [Http (token_request self (Some code) (make_url request (path request)))]\<rparr>))
   \<and> (http E (token_request self (Some code) (make_url request (path request))) = Inr rt
      \<and> r_json rt = Inr tok \<and> getitem tok ''access_token'' = Inr t
      \<and> http E (userdata_request (py_format E t)) = Inl (ClientResponseError detail)
      \<longrightarrow> new_route E self func force scope sg sc request
            = (Inl (SanicException (Userdata_failed detail) 400),
               self\<lparr>calls := calls self @
                 [Http (token_request self (Some code) (make_url request (path request))),
                  Http (userdata_request (py_format E t))]\<rparr>))"
proof -
  have ck: "check_state sg sc request = None"
    using assms(5,6) by (simp add: check_state_def split: option.splits)
  note route = callback_phase_route [OF assms(1,2,3) args_get_nonempty [OF assms(4)] ck]
  show ?thesis
    using assms(1,4)
    by (simp add: route fetch_login_user_def get_token_def get_userdata_def session_request_def
        emit_def except_ClientResponseError_def call_handler_def encrypt_def Let_def)
qed

theorem callback_success_path_witness:
  "bot' self0 = Some bot0
   \<and> \<not> truthy (cookies req_callback ''session'')
   \<and> args_get req_callback ''code'' = Some ''ABC''
   \<and> state_checker E0 self0 req_callback (state_arg req_callback)
   \<and> http E0 (token_request self0 (Some ''ABC'') (make_url req_callback (path req_callback)))
       = Inr \<lparr>r_url = BASE @ ''oauth2/token'',
              r_json = Inr (JDict [(''access_token'', JStr ''T0'')])\<rparr>
   \<and> getitem (JDict [(''access_token'', JStr ''T0'')]) ''access_token'' = Inr (JStr ''T0'')
   \<and> http E0 (userdata_request (py_format E0 (JStr ''T0'')))
       = Inr \<lparr>r_url = BASE @ ''users/@me'', r_json = Inr me_json\<rparr>
   \<and> new_User bot0 me_json = Inr alice
   \<and> func0 (req_callback\<lparr>ctx_user := Some alice\<rparr>)
       = Inr \<lparr>body = ''alice'', set_cookies = Map.empty\<rparr>
   \<and> new_route E0 self0 func0 False [''identify'']
        (Some (state_generator E0 self0)) (Some (state_checker E0 self0)) req_callback
       = (Inr (Reply \<lparr>body = ''alice'',
                      set_cookies = [''session'' \<mapsto> ''bkid=7,name=alice'']\<rparr>),
          self0\<lparr>calls := [Http (token_request self0 (Some ''ABC'') ''http://rt.example/dash''),
                           Http (userdata_request ''T0''),
                           Handler (Some alice)]\<rparr>)
   \<and> args_get req_bad_code ''code'' = Some ''XYZ''
   \<and> state_checker E0 self0 req_bad_code (state_arg req_bad_code)
   \<and> http E0 (token_request self0 (Some ''XYZ'') (make_url req_bad_code (path req_bad_code)))
       = Inl (ClientResponseError ''400, message=Bad Request'')
   \<and> new_route E0 self0 func0 False [''identify'']
        (Some (state_generator E0 self0)) (Some (state_checker E0 self0)) req_bad_code
       = (Inl (SanicException (Userdata_failed ''400, message=Bad Request'') 400),
          self0\<lparr>calls := [Http (token_request self0 (Some ''XYZ'') ''http://rt.example/dash'')]\<rparr>)
   \<and> args_get req_old_code ''code'' = Some ''OLD''
   \<and> state_checker E0 self0 req_old_code (state_arg req_old_code)
   \<and> http E0 (userdata_request (py_format E0 (JStr ''T1'')))
       = Inl (ClientResponseError ''401, message=Unauthorized'')
   \<and> new_route E0 self0 func0 False [''identify'']
        (Some (state_generator E0 self0)) (Some (state_checker E0 self0)) req_old_code
       = (Inl (SanicException (Userdata_failed ''401, message=Unauthorized'') 400),
          self0\<lparr>calls := [Http (token_request self0 (Some ''OLD'') ''http://rt.example/dash''),
                           Http (userdata_request ''T1'')]\<rparr>)"
proof -
  have nf: "\<not> False" by simp
  have sc: "Some (state_checker E0 self0) = Some (state_checker E0 self0)" by simp
  have ok: "state_checker E0 self0 req_callback (state_arg req_callback)"
    "state_checker E0 self0 req_bad_code (state_arg req_bad_code)"
    "state_checker E0 self0 req_old_code (state_arg req_old_code)"
    by (simp_all add: callback_requests state_checker0)
  have misc: "getitem (JDict [(''access_token'', JStr ''T0'')]) ''access_token'' = Inr (JStr ''T0'')"
    "getitem (JDict [(''access_token'', JStr ''T1'')]) ''access_token'' = Inr (JStr ''T1'')"
    "py_format E0 (JStr ''T0'') = ''T0''" "py_format E0 (JStr ''T1'') = ''T1''"
    "new_User bot0 me_json = Inr alice"
    "func0 (req_callback\<lparr>ctx_user := Some alice\<rparr>) = Inr \<lparr>body = ''alice'', set_cookies = Map.empty\<rparr>"
    "encrypt E0 self0 (JDict [(''id'', JInt (user_id alice)), (''name'', JStr (name alice))]) None
       = ''bkid=7,name=alice''"
    by (simp_all add: getitem_def py_format_def bot0_def func0_def alice_def encrypt_def E0_def
        encrypt0_def tag0_def self0_def)
  note a = callback_success_path [OF self0_fields(1) callback_requests(1) nf callback_requests(5) sc ok(1),
      where E = E0 and func = func0 and scope = "[''identify'']"
        and sg = "Some (state_generator E0 self0)"
        and rt = "\<lparr>r_url = BASE @ ''oauth2/token'', r_json = Inr (JDict [(''access_token'', JStr ''T0'')])\<rparr>"
        and tok = "JDict [(''access_token'', JStr ''T0'')]" and t = "JStr ''T0''"
        and ru = "\<lparr>r_url = BASE @ ''users/@me'', r_json = Inr me_json\<rparr>"
        and d = me_json and u = alice
        and resp = "\<lparr>body = ''alice'', set_cookies = Map.empty\<rparr>"]
  note b = callback_success_path [OF self0_fields(1) callback_requests(2) nf callback_requests(6) sc ok(2),
      where E = E0 and func = func0 and scope = "[''identify'']"
        and sg = "Some (state_generator E0 self0)"
        and detail = "''400, message=Bad Request''"]
  note c = callback_success_path [OF self0_fields(1) callback_requests(3) nf callback_requests(7) sc ok(3),
      where E = E0 and func = func0 and scope = "[''identify'']"
        and sg = "Some (state_generator E0 self0)"
        and rt = "\<lparr>r_url = BASE @ ''oauth2/token'', r_json = Inr (JDict [(''access_token'', JStr ''T1'')])\<rparr>"
        and tok = "JDict [(''access_token'', JStr ''T1'')]" and t = "JStr ''T1''"
        and detail = "''401, message=Unauthorized''"]
  have A: "new_route E0 self0 func0 False [''identify'']
        (Some (state_generator E0 self0)) (Some (state_checker E0 self0)) req_callback
       = (Inr (Reply \<lparr>body = ''alice'',
                      set_cookies = [''session'' \<mapsto> ''bkid=7,name=alice'']\<rparr>),
          self0\<lparr>calls := [Http (token_request self0 (Some ''ABC'') ''http://rt.example/dash''),
                           Http (userdata_request ''T0''),
                           Handler (Some alice)]\<rparr>)"
    using a by (simp add: callback_requests provider0 misc self0_fields)
  have B: "new_route E0 self0 func0 False [''identify'']
        (Some (state_generator E0 self0)) (Some (state_checker E0 self0)) req_bad_code
       = (Inl (SanicException (Userdata_failed ''400, message=Bad Request'') 400),
          self0\<lparr>calls := [Http (token_request self0 (Some ''XYZ'') ''http://rt.example/dash'')]\<rparr>)"
    using b by (simp add: callback_requests provider0 misc self0_fields)
  have C: "new_route E0 self0 func0 False [''identify'']
        (Some (state_generator E0 self0)) (Some (state_checker E0 self0)) req_old_code
       = (Inl (SanicException (Userdata_failed ''401, message=Unauthorized'') 400),
          self0\<lparr>calls := [Http (token_request self0 (Some ''OLD'') ''http://rt.example/dash''),
                           Http (userdata_request ''T1'')]\<rparr>)"
    using c by (simp add: callback_requests provider0 misc self0_fields)
  show ?thesis
    using A B C ok
    by (simp add: callback_requests provider0 misc self0_fields)
qed


text \<open>
  C3, as the code has it, for a route with a state checker configured. In the callback
  phase the \<^verbatim>\<open>state\<close> parameter (the empty string when it is missing) is checked by that
  checker exactly when a state generator is configured as well: line 170 tests
  \<^verbatim>\<open>state_generator\<close>. With a generator, a state the checker rejects gives the 403 error
  at once: the object is untouched, so the handler is not called and nothing is sent to
  the provider; a state it accepts lets the route go on as it does with no check at
  all. With no generator the checker is never asked, whatever it would answer.
\<close>

theorem callback_state_enforcement:
  assumes "bot' self = Some b"
    and "\<not> truthy (cookies request ''session'')" and "\<not> force"
    and "args request \<noteq> []"
    and "sc = Some chk"
  shows
    "(sg = Some gen \<and> \<not> chk request (state_arg request)
       \<longrightarrow> new_route E self func force scope sg sc request
             = (Inl (SanicException State_mismatch 403), self))
   \<and> (sg = Some gen \<and> chk request (state_arg request)
       \<longrightarrow> new_route E self func force scope sg sc request
             = new_route E self func force scope None None request)
   \<and> (sg = None
       \<longrightarrow> new_route E self func force scope sg sc request
             = new_route E self func force scope None None request)"
  using assms by (simp add: new_route_def check_state_def)

theorem callback_state_enforcement_witness:
  "bot' self0 = Some bot0
   \<and> \<not> truthy (cookies req_forged ''session'') \<and> args req_forged \<noteq> []
   \<and> \<not> state_checker E0 self0 req_forged (state_arg req_forged)
   \<and> new_route E0 self0 func0 False [''identify'']
        (Some (state_generator E0 self0)) (Some (state_checker E0 self0)) req_forged
      = (Inl (SanicException State_mismatch 403), self0)
   \<and> \<not> truthy (cookies req_callback ''session'') \<and> args req_callback \<noteq> []
   \<and> state_checker E0 self0 req_callback (state_arg req_callback)
   \<and> new_route E0 self0 func0 False [''identify'']
        (Some (state_generator E0 self0)) (Some (state_checker E0 self0)) req_callback
      = new_route E0 self0 func0 False [''identify''] None None req_callback
   \<and> new_route E0 self0 func0 False [''identify''] None (Some (state_checker E0 self0)) req_forged
      = new_route E0 self0 func0 False [''identify''] None None req_forged"
proof -
  have nf: "\<not> False" by simp
  have ne: "args req_forged \<noteq> []" "args req_callback \<noteq> []"
    by (simp_all add: req_forged_def req_callback_def)
  have ck: "\<not> state_checker E0 self0 req_forged (state_arg req_forged)"
    "state_checker E0 self0 req_callback (state_arg req_callback)"
    by (simp_all add: callback_requests state_checker0)
  have sc: "Some (state_checker E0 self0) = Some (state_checker E0 self0)" by simp
  note a = callback_state_enforcement [OF self0_fields(1) callback_requests(4) nf ne(1) sc,
      where E = E0 and func = func0 and scope = "[''identify'']"
        and sg = "Some (state_generator E0 self0)" and gen = "state_generator E0 self0"]
  note b = callback_state_enforcement [OF self0_fields(1) callback_requests(1) nf ne(2) sc,
      where E = E0 and func = func0 and scope = "[''identify'']"
        and sg = "Some (state_generator E0 self0)" and gen = "state_generator E0 self0"]
  note c = callback_state_enforcement [OF self0_fields(1) callback_requests(4) nf ne(1) sc,
      where E = E0 and func = func0 and scope = "[''identify'']"
        and sg = None]
  show ?thesis
    using a b c ck ne self0_fields(1) callback_requests(1,4) by simp
qed

text \<open>
  C3 as it was stated fails: \<^verbatim>\<open>require_login(state_generator=None)\<close> leaves the default
  checker configured, that checker rejects the state \<^verbatim>\<open>forged\<close>, and yet the route
  exchanges the code, fetches the user, calls the handler and sets the cookie.
\<close>

theorem checker_without_generator_counterexample:
  "\<not> state_checker E0 self0 req_forged (state_arg req_forged)
   \<and> require_login E0 self0 False [''identify''] NoneArg Default func0 req_forged
      = (Inr (Reply \<lparr>body = ''alice'',
                     set_cookies = [''session'' \<mapsto> ''bkid=7,name=alice'']\<rparr>),
         self0\<lparr>calls := [Http (token_request self0 (Some ''ABC'') ''http://rt.example/dash''),
                          Http (userdata_request ''T0''),
                          Handler (Some alice)]\<rparr>)"
proof -
  have ck: "\<not> state_checker E0 self0 req_forged (state_arg req_forged)"
    by (simp add: callback_requests state_checker0)
  have ne: "args req_forged \<noteq> []"
    by (simp add: req_forged_def)
  have route: "new_route E0 self0 func0 False [''identify''] None (Some (state_checker E0 self0)) req_forged
      = (case fetch_login_user E0 self0 req_forged of
                (Inl e, self1) \<Rightarrow> (Inl (except_ClientResponseError e), self1)
              | (Inr u, self1) \<Rightarrow>
                  call_handler E0 func0 (req_forged\<lparr>ctx_user := Some u\<rparr>) write_cookie self1)"
    by (rule callback_phase_route [OF self0_fields(1) callback_requests(4) _ ne])
      (simp_all add: check_state_def)
  have login: "fetch_login_user E0 self0 req_forged
      = (Inr alice, self0\<lparr>calls := [Http (token_request self0 (Some ''ABC'') ''http://rt.example/dash''),
                          Http (userdata_request ''T0'')]\<rparr>)"
    by (simp add: fetch_login_user_def get_token_def get_userdata_def session_request_def
        callback_requests provider0 emit_def getitem_def py_format_def self0_fields bot0_def)
  have handler: "call_handler E0 func0 (req_forged\<lparr>ctx_user := Some alice\<rparr>) write_cookie
       (self0\<lparr>calls := [Http (token_request self0 (Some ''ABC'') ''http://rt.example/dash''),
                          Http (userdata_request ''T0'')]\<rparr>)
      = (Inr (Reply \<lparr>body = ''alice'',
                     set_cookies = [''session'' \<mapsto> ''bkid=7,name=alice'']\<rparr>),
         self0\<lparr>calls := [Http (token_request self0 (Some ''ABC'') ''http://rt.example/dash''),
                          Http (userdata_request ''T0''),
                          Handler (Some alice)]\<rparr>)"
    by (simp add: call_handler_def Let_def func0_def emit_def encrypt_def E0_def encrypt0_def
        tag0_def alice_def self0_def)
  show ?thesis
    using ck by (simp add: require_login_def wrap_route_def route login handler)
qed

section \<open>The redirect cache is never filled\<close>

text \<open>
  C1. Two calls of \<open>get_url\<close> in a row, for the same callback URL and the same scope, on
  an object whose cache is empty: each sends the authorize request, and after the
  first call the cache still has no entry for that URL. The claim asks for one request
  at most.
\<close>

theorem get_url_twice_two_round_trips:
  "calls (snd (get_url E0 (snd (get_url E0 self0 ''http://rt.example/dash'' [''identify''] None))
                 ''http://rt.example/dash'' [''identify''] None))
     = [Http (authorize_request self0 ''http://rt.example/dash'' [''identify'']),
        Http (authorize_request self0 ''http://rt.example/dash'' [''identify''])]
   \<and> get_redirect_oauth (snd (get_url E0 self0 ''http://rt.example/dash'' [''identify''] None))
        ''http://rt.example/dash'' = None"
proof -
  have first: "get_url E0 self0 ''http://rt.example/dash'' [''identify''] None
      = (Inr ''https://discord.com/oauth2/authorize?client_id=1&redirect_uri=http:%2F%2Frt.example%2Fdash'',
         self0\<lparr>calls := [Http (authorize_request self0 ''http://rt.example/dash'' [''identify''])]\<rparr>)"
    by (simp add: get_url_def get_redirect_oauth_def session_request_def emit_def self0_def
        E0_def http0_def authorize_request_def BASE_def encode_query_def find'_def slice_to_def
        slice_from_def replace_slash_def state_suffix_def)
  have miss: "get_redirect_oauth
        (self0\<lparr>calls := [Http (authorize_request self0 ''http://rt.example/dash'' [''identify''])]\<rparr>)
        ''http://rt.example/dash'' = None"
    by (simp add: get_redirect_oauth_def self0_def)
  have same: "authorize_request
        (self0\<lparr>calls := [Http (authorize_request self0 ''http://rt.example/dash'' [''identify''])]\<rparr>)
        ''http://rt.example/dash'' [''identify'']
      = authorize_request self0 ''http://rt.example/dash'' [''identify'']"
    by (simp add: authorize_request_def)
  show ?thesis
    by (simp add: first miss get_url_miss_calls [OF miss] same)
qed

section \<open>Functions passed to \<^verbatim>\<open>require_login\<close>\<close>

text \<open>
  C2. \<^verbatim>\<open>require_login\<close> is given a generator and a checker of the caller's own. On a first
  visit the redirect URL carries no \<^verbatim>\<open>state\<close>, though the generator would produce one;
  on the callback a state the supplied checker rejects is let through. The claim asks
  for the supplied functions to be used.
\<close>

theorem supplied_state_functions_dropped:
  "gen1 req0 = ''token-10.0.0.1''
   \<and> fst (require_login E0 self0 False [''identify''] (Callable gen1) (Callable chk1) func0 req0)
      = Inr (Redirect ''https://discord.com/oauth2/authorize?client_id=1&redirect_uri=http:%2F%2Frt.example%2Fdash'')
   \<and> \<not> chk1 req_forged (state_arg req_forged)
   \<and> fst (require_login E0 self0 False [''identify''] (Callable gen1) (Callable chk1) func0 req_forged)
      = Inr (Reply \<lparr>body = ''alice'',
                    set_cookies = [''session'' \<mapsto> ''bkid=7,name=alice'']\<rparr>)"
proof -
  have g: "gen1 req0 = ''token-10.0.0.1''"
    by (simp add: gen1_def req0_def)
  have c: "\<not> chk1 req_forged (state_arg req_forged)"
    by (simp add: chk1_def callback_requests)
  have r0: "fst (new_route E0 self0 func0 False [''identify''] None None req0)
      = Inr (Redirect ''https://discord.com/oauth2/authorize?client_id=1&redirect_uri=http:%2F%2Frt.example%2Fdash'')"
    by (simp add: new_route_def truthy_def req0_def make_url_def make_base_url_def
        get_url_def get_redirect_oauth_def session_request_def emit_def self0_def
        E0_def http0_def authorize_request_def BASE_def encode_query_def find'_def slice_to_def
        slice_from_def replace_slash_def state_suffix_def)
  have ne: "args req_forged \<noteq> []"
    by (simp add: req_forged_def)
  have route: "new_route E0 self0 func0 False [''identify''] None None req_forged
      = (case fetch_login_user E0 self0 req_forged of
                (Inl e, self1) \<Rightarrow> (Inl (except_ClientResponseError e), self1)
              | (Inr u, self1) \<Rightarrow>
                  call_handler E0 func0 (req_forged\<lparr>ctx_user := Some u\<rparr>) write_cookie self1)"
    by (rule callback_phase_route [OF self0_fields(1) callback_requests(4) _ ne])
      (simp_all add: check_state_def)
  have login: "fetch_login_user E0 self0 req_forged
      = (Inr alice, self0\<lparr>calls := [Http (token_request self0 (Some ''ABC'') ''http://rt.example/dash''),
                          Http (userdata_request ''T0'')]\<rparr>)"
    by (simp add: fetch_login_user_def get_token_def get_userdata_def session_request_def
        callback_requests provider0 emit_def getitem_def py_format_def self0_fields bot0_def)
  have handler: "fst (call_handler E0 func0 (req_forged\<lparr>ctx_user := Some alice\<rparr>) write_cookie
       (self0\<lparr>calls := [Http (token_request self0 (Some ''ABC'') ''http://rt.example/dash''),
                          Http (userdata_request ''T0'')]\<rparr>))
      = Inr (Reply \<lparr>body = ''alice'',
                     set_cookies = [''session'' \<mapsto> ''bkid=7,name=alice'']\<rparr>)"
    by (simp add: call_handler_def Let_def func0_def emit_def encrypt_def E0_def encrypt0_def
        tag0_def alice_def self0_def)
  show ?thesis
    using g c by (simp add: require_login_def wrap_route_def r0 route login handler)
qed

section \<open>A location with no query string\<close>

text \<open>
  C9. The provider's final URL is \<^verbatim>\<open>https://discord.com/\<close>, with no \<^verbatim>\<open>?\<close>: \<open>get_url\<close>
  returns it with its last \<^verbatim>\<open>/\<close> turned into \<^verbatim>\<open>%2F\<close>, where the specification's
  wording keeps the whole URL. (With a \<^verbatim>\<open>?\<close> in the URL the two agree:
  \<open>encode_query_with_query\<close>.)
\<close>

theorem bare_location_slash_encoded:
  "fst (get_url E_bare self0 ''http://rt.example/dash'' [''identify''] None)
     = Inr ''https://discord.com%2F''
   \<and> spec_encode_query ''https://discord.com/'' = ''https://discord.com/''"
  by (simp add: get_url_def get_redirect_oauth_def session_request_def emit_def self0_def
      E_bare_def E0_def encode_query_def find'_def slice_to_def slice_from_def replace_slash_def
      state_suffix_def spec_encode_query_def)


end
